theory Spec2Isabelle
  imports Complex_Main "HOL-Library.AList" "HOL-Library.Char_ord" "HOL-Library.List_Lexorder"
begin

section \<open>cpsmine: flood protection estimates from a connection log\<close>

text \<open>
  The development follows \<^verbatim>\<open>src/cpsmine.py\<close>. Python values are modelled as follows:
  \<^item> \<^verbatim>\<open>int\<close> is \<^typ>\<open>int\<close>, \<^verbatim>\<open>str\<close> is \<^typ>\<open>string\<close>, \<^verbatim>\<open>None\<close>-or-value is an option;
  \<^item> \<^verbatim>\<open>float\<close> is \<^typ>\<open>real\<close>: true division and the statistics are exact, rounding of
    binary floating point is not represented;
  \<^item> a row of \<^verbatim>\<open>csv.DictReader\<close> is a map from column names to fields;
  \<^item> the count dictionary is an association list in insertion order, as a Python
    \<^verbatim>\<open>dict\<close> is;
  \<^item> every exception and every \<^verbatim>\<open>sys.exit\<close> is a value of \<open>failure\<close>, returned together
    with the lines printed up to that point;
  \<^item> \<^verbatim>\<open>print\<close> appends a line to the list of printed lines that each printing function
    takes and returns.
\<close>

subsection \<open>Failures and printed lines\<close>

datatype failure =
    SystemExit string
  | ValueError
  | KeyError
  | ZeroDivisionError
  | OverflowError
  | IndexError
  | StatisticsError
  | UnicodeDecodeError nat string

subsection \<open>Constants of the module\<close>

definition PROTO_LIST :: "string list" where
  "PROTO_LIST = [''icmp'', ''tcp'', ''udp'']"

definition IP_PROTO :: string where
  "IP_PROTO = ''IP Protocol''"

definition START_TIME :: string where
  "START_TIME = ''Start Time''"

subsection \<open>Rows and the row filter\<close>

type_synonym row = "string \<rightharpoonup> string"

text \<open>Python truthiness of an optional string: \<^verbatim>\<open>None\<close> and the empty string are false.\<close>

fun truthy :: "string option \<Rightarrow> bool" where
  "truthy None = False"
| "truthy (Some s) = (s \<noteq> [])"

text \<open>
  \<^verbatim>\<open>skip_row(row, interface, proto, zone)\<close>. A subscript \<^verbatim>\<open>row[k]\<close> on a column the row
  does not have raises \<^verbatim>\<open>KeyError\<close>; the protocol column is read only where the source
  reads it.
\<close>

definition skip_row :: "row \<Rightarrow> string option \<Rightarrow> string \<Rightarrow> string option \<Rightarrow> failure + bool" where
  "skip_row row interface proto zone =
     (let (row_key, target) =
            (if truthy interface then (''Inbound Interface'', interface)
             else (''Source Zone'', zone))
      in case row row_key of
           None \<Rightarrow> Inl KeyError
         | Some v \<Rightarrow>
             if Some v \<noteq> target then Inr True
             else if proto = ''all'' then Inr False
             else (case row IP_PROTO of
                     None \<Rightarrow> Inl KeyError
                   | Some p \<Rightarrow>
                       if proto = ''other'' \<and> p \<notin> set PROTO_LIST then Inr False
                       else if proto = p then Inr False
                       else Inr True))"

text \<open>
  The criteria as the specification describes them: exactly one of interface and zone
  names the target. A name that selects the interface is a non-empty string, since the
  source tests \<^verbatim>\<open>if interface:\<close>.
\<close>

definition valid_criteria :: "string option \<Rightarrow> string option \<Rightarrow> bool" where
  "valid_criteria interface zone =
     (case (interface, zone) of
        (Some i, None) \<Rightarrow> i \<noteq> []
      | (None, Some z) \<Rightarrow> True
      | _ \<Rightarrow> False)"

text \<open>The field and the value the specification selects for valid criteria.\<close>

definition target_field :: "string option \<Rightarrow> string" where
  "target_field interface = (case interface of Some _ \<Rightarrow> ''Inbound Interface'' | None \<Rightarrow> ''Source Zone'')"

definition target_value :: "string option \<Rightarrow> string option \<Rightarrow> string option" where
  "target_value interface zone = (case interface of Some i \<Rightarrow> Some i | None \<Rightarrow> zone)"

text \<open>The inclusion rule of the specification for a row whose target matches.\<close>

definition protocol_included :: "string \<Rightarrow> string \<Rightarrow> bool" where
  "protocol_included proto p =
     (proto = ''all'' \<or> (proto = ''other'' \<and> p \<notin> {''icmp'', ''tcp'', ''udp''}) \<or> p = proto)"

subsection \<open>Dates and times\<close>

text \<open>
  A \<^verbatim>\<open>datetime\<close> of whole-second resolution: both formats of the module have no
  fractional field, so the microsecond of every parsed value is zero.
\<close>

record datetime =
  year :: nat
  month :: nat
  day :: nat
  hour :: nat
  minute :: nat
  second :: nat

definition is_leap :: "nat \<Rightarrow> bool" where
  "is_leap y = (y mod 4 = 0 \<and> (y mod 100 \<noteq> 0 \<or> y mod 400 = 0))"

definition days_in_month :: "nat \<Rightarrow> nat \<Rightarrow> nat" where
  "days_in_month y m =
     (if m = 2 \<and> is_leap y then 29
      else [0, 31, 28, 31, 30, 31, 30, 31, 31, 30, 31, 30, 31] ! m)"

text \<open>The checks of the \<^verbatim>\<open>datetime\<close> constructor; a value that fails one is a \<^verbatim>\<open>ValueError\<close>.\<close>

definition valid_datetime :: "datetime \<Rightarrow> bool" where
  "valid_datetime t =
     (1 \<le> year t \<and> year t \<le> 9999 \<and> 1 \<le> month t \<and> month t \<le> 12
      \<and> 1 \<le> day t \<and> day t \<le> days_in_month (year t) (month t)
      \<and> hour t < 24 \<and> minute t < 60 \<and> second t < 60)"

definition days_before_year :: "nat \<Rightarrow> int" where
  "days_before_year y =
     (let y1 = int y - 1 in y1 * 365 + y1 div 4 - y1 div 100 + y1 div 400)"

definition days_before_month :: "nat \<Rightarrow> nat \<Rightarrow> int" where
  "days_before_month y m =
     [0, 0, 31, 59, 90, 120, 151, 181, 212, 243, 273, 304, 334] ! m
       + (if 2 < m \<and> is_leap y then 1 else 0)"

definition toordinal :: "datetime \<Rightarrow> int" where
  "toordinal t = days_before_year (year t) + days_before_month (year t) (month t) + int (day t)"

definition seconds_of_day :: "datetime \<Rightarrow> int" where
  "seconds_of_day t = int (second t) + int (minute t) * 60 + int (hour t) * 3600"

text \<open>
  A \<^verbatim>\<open>timedelta\<close> is its exact length in microseconds. \<^verbatim>\<open>timedelta(seconds=n)\<close> raises
  \<^verbatim>\<open>OverflowError\<close> when the normalised number of days leaves the supported range.
\<close>

type_synonym timedelta = int

definition timedelta_seconds :: "int \<Rightarrow> timedelta option" where
  "timedelta_seconds n =
     (if - 999999999 \<le> n div 86400 \<and> n div 86400 \<le> 999999999 then Some (n * 1000000)
      else None)"

text \<open>The whole seconds from \<open>t2\<close> to \<open>t1\<close>, and the \<^verbatim>\<open>timedelta\<close> \<^verbatim>\<open>t1 - t2\<close>.\<close>

definition seconds_between :: "datetime \<Rightarrow> datetime \<Rightarrow> int" where
  "seconds_between t1 t2 =
     (toordinal t1 - toordinal t2) * 86400 + (seconds_of_day t1 - seconds_of_day t2)"

definition datetime_sub :: "datetime \<Rightarrow> datetime \<Rightarrow> timedelta" where
  "datetime_sub t1 t2 = seconds_between t1 t2 * 1000000"

text \<open>
  \<^verbatim>\<open>timedelta / int\<close> rounds the quotient of the microseconds to the nearest integer, ties
  to even (\<^verbatim>\<open>_divide_and_round\<close>).
\<close>

definition divide_and_round :: "int \<Rightarrow> int \<Rightarrow> int" where
  "divide_and_round a b =
     (let q = a div b; r = (a mod b) * 2;
          greater_than_half = (if 0 < b then b < r else r < b)
      in if greater_than_half \<or> (r = b \<and> q mod 2 = 1) then q + 1 else q)"

definition timedelta_truediv :: "timedelta \<Rightarrow> int \<Rightarrow> timedelta" where
  "timedelta_truediv td n = divide_and_round td n"

subsection \<open>Parsing and rendering timestamps\<close>

text \<open>
  \<^verbatim>\<open>datetime.strptime\<close> and \<^verbatim>\<open>strftime\<close> belong to the Python library. They are modelled
  after the library for the two formats of the module, \<^verbatim>\<open>FMT = "%Y/%m/%d %H:%M:%S"\<close> and
  \<^verbatim>\<open>COMPRESS_FMT = "%Y%m%d%H%M%S"\<close>. \<^verbatim>\<open>strptime\<close> turns the format into a regular
  expression, takes the first match a backtracking matcher finds at the start of the
  string, rejects a match that leaves text over, and builds the \<^verbatim>\<open>datetime\<close>, whose
  constructor checks the ranges. A directive's matches are listed here in the order of
  the alternatives of its expression, each with the text that follows it.
\<close>

definition is_digit :: "char \<Rightarrow> bool" where
  "is_digit c = (48 \<le> (of_char c :: nat) \<and> (of_char c :: nat) \<le> 57)"

definition digit_val :: "char \<Rightarrow> nat" where
  "digit_val c = of_char c - 48"

definition digit_char :: "nat \<Rightarrow> char" where
  "digit_char d = char_of (48 + d)"

text \<open>
  The characters that \<^verbatim>\<open>\s\<close> matches in a \<^verbatim>\<open>str\<close> pattern, among the code points below
  256 that a \<^typ>\<open>char\<close> stands for: tab to carriage return, the four separators, the
  blank, the next-line character and the no-break space.
\<close>

definition is_space :: "char \<Rightarrow> bool" where
  "is_space c = ((of_char c :: nat) \<in> {9, 10, 11, 12, 13, 28, 29, 30, 31, 32, 133, 160})"

fun two_digits :: "(nat \<Rightarrow> nat \<Rightarrow> bool) \<Rightarrow> string \<Rightarrow> (nat \<times> string) list" where
  "two_digits ok (a # b # r) =
     (if is_digit a \<and> is_digit b \<and> ok (digit_val a) (digit_val b)
      then [(10 * digit_val a + digit_val b, r)] else [])"
| "two_digits ok _ = []"

fun one_digit :: "(nat \<Rightarrow> bool) \<Rightarrow> string \<Rightarrow> (nat \<times> string) list" where
  "one_digit ok (a # r) = (if is_digit a \<and> ok (digit_val a) then [(digit_val a, r)] else [])"
| "one_digit ok [] = []"

text \<open>\<^verbatim>\<open>%Y\<close> is \<^verbatim>\<open>\d\d\d\d\<close>.\<close>

fun re_Y :: "string \<Rightarrow> (nat \<times> string) list" where
  "re_Y (a # b # c # d # r) =
     (if is_digit a \<and> is_digit b \<and> is_digit c \<and> is_digit d
      then [(1000 * digit_val a + 100 * digit_val b + 10 * digit_val c + digit_val d, r)]
      else [])"
| "re_Y _ = []"

text \<open>\<^verbatim>\<open>%m\<close> is \<^verbatim>\<open>1[0-2]|0[1-9]|[1-9]\<close>.\<close>

definition re_m :: "string \<Rightarrow> (nat \<times> string) list" where
  "re_m s = two_digits (\<lambda>a b. a = 1 \<and> b \<le> 2) s @ two_digits (\<lambda>a b. a = 0 \<and> 1 \<le> b) s
            @ one_digit (\<lambda>a. 1 \<le> a) s"

text \<open>\<^verbatim>\<open>%d\<close> is \<^verbatim>\<open>3[0-1]|[1-2]\d|0[1-9]|[1-9]| [1-9]\<close>.\<close>

definition re_d :: "string \<Rightarrow> (nat \<times> string) list" where
  "re_d s = two_digits (\<lambda>a b. a = 3 \<and> b \<le> 1) s @ two_digits (\<lambda>a b. a = 1 \<or> a = 2) s
            @ two_digits (\<lambda>a b. a = 0 \<and> 1 \<le> b) s @ one_digit (\<lambda>a. 1 \<le> a) s
            @ (case s of [] \<Rightarrow> [] | c # r \<Rightarrow> if c = CHR '' '' then one_digit (\<lambda>a. 1 \<le> a) r else [])"

text \<open>\<^verbatim>\<open>%H\<close> is \<^verbatim>\<open>2[0-3]|[0-1]\d|\d\<close>.\<close>

definition re_H :: "string \<Rightarrow> (nat \<times> string) list" where
  "re_H s = two_digits (\<lambda>a b. a = 2 \<and> b \<le> 3) s @ two_digits (\<lambda>a b. a \<le> 1) s
            @ one_digit (\<lambda>a. True) s"

text \<open>\<^verbatim>\<open>%M\<close> is \<^verbatim>\<open>[0-5]\d|\d\<close>.\<close>

definition re_M :: "string \<Rightarrow> (nat \<times> string) list" where
  "re_M s = two_digits (\<lambda>a b. a \<le> 5) s @ one_digit (\<lambda>a. True) s"

text \<open>\<^verbatim>\<open>%S\<close> is \<^verbatim>\<open>6[0-1]|[0-5]\d|\d\<close>.\<close>

definition re_S :: "string \<Rightarrow> (nat \<times> string) list" where
  "re_S s = two_digits (\<lambda>a b. a = 6 \<and> b \<le> 1) s @ two_digits (\<lambda>a b. a \<le> 5) s
            @ one_digit (\<lambda>a. True) s"

text \<open>A literal character of the format, and the blank of \<^verbatim>\<open>FMT\<close>, which becomes \<^verbatim>\<open>\s+\<close>.\<close>

fun re_lit :: "char \<Rightarrow> string \<Rightarrow> (unit \<times> string) list" where
  "re_lit c (x # r) = (if x = c then [((), r)] else [])"
| "re_lit c [] = []"

fun re_spaces :: "string \<Rightarrow> (unit \<times> string) list" where
  "re_spaces (x # r) = (if is_space x then re_spaces r @ [((), r)] else [])"
| "re_spaces [] = []"

text \<open>Sequencing: every match of the first part is continued by the second, in order.\<close>

definition then_parse ::
  "('a \<times> string) list \<Rightarrow> ('a \<Rightarrow> string \<Rightarrow> ('b \<times> string) list) \<Rightarrow> ('b \<times> string) list" where
  "then_parse ps f = concat (map (\<lambda>(a, r). f a r) ps)"

definition regex_COMPRESS_FMT :: "string \<Rightarrow> (datetime \<times> string) list" where
  "regex_COMPRESS_FMT s =
     then_parse (re_Y s) (\<lambda>Y s1.
     then_parse (re_m s1) (\<lambda>m s2.
     then_parse (re_d s2) (\<lambda>d s3.
     then_parse (re_H s3) (\<lambda>H s4.
     then_parse (re_M s4) (\<lambda>M s5.
     then_parse (re_S s5) (\<lambda>S s6.
       [(\<lparr>year = Y, month = m, day = d, hour = H, minute = M, second = S\<rparr>, s6)]))))))"

definition regex_FMT :: "string \<Rightarrow> (datetime \<times> string) list" where
  "regex_FMT s =
     then_parse (re_Y s) (\<lambda>Y s1.
     then_parse (re_lit CHR ''/'' s1) (\<lambda>_ s2.
     then_parse (re_m s2) (\<lambda>m s3.
     then_parse (re_lit CHR ''/'' s3) (\<lambda>_ s4.
     then_parse (re_d s4) (\<lambda>d s5.
     then_parse (re_spaces s5) (\<lambda>_ s6.
     then_parse (re_H s6) (\<lambda>H s7.
     then_parse (re_lit CHR '':'' s7) (\<lambda>_ s8.
     then_parse (re_M s8) (\<lambda>M s9.
     then_parse (re_lit CHR '':'' s9) (\<lambda>_ s10.
     then_parse (re_S s10) (\<lambda>S s11.
       [(\<lparr>year = Y, month = m, day = d, hour = H, minute = M, second = S\<rparr>, s11)])))))))))))"

text \<open>\<^verbatim>\<open>None\<close> stands for the \<^verbatim>\<open>ValueError\<close> that \<^verbatim>\<open>strptime\<close> raises.\<close>

definition strptime_of :: "(datetime \<times> string) list \<Rightarrow> datetime option" where
  "strptime_of matches =
     (case matches of
        [] \<Rightarrow> None
      | (t, rest) # _ \<Rightarrow> if rest \<noteq> [] then None else if valid_datetime t then Some t else None)"

definition strptime_FMT :: "string \<Rightarrow> datetime option" where
  "strptime_FMT s = strptime_of (regex_FMT s)"

definition strptime_COMPRESS_FMT :: "string \<Rightarrow> datetime option" where
  "strptime_COMPRESS_FMT s = strptime_of (regex_COMPRESS_FMT s)"

text \<open>A natural number in decimal, as \<^verbatim>\<open>str\<close> and \<^verbatim>\<open>%d\<close> of the C library print it.\<close>

fun str_nat :: "nat \<Rightarrow> string" where
  "str_nat n = (if n < 10 then [digit_char n] else str_nat (n div 10) @ [digit_char (n mod 10)])"

declare str_nat.simps [simp del]

text \<open>
  \<^verbatim>\<open>strftime(COMPRESS_FMT)\<close>. CPython hands the format to \<^verbatim>\<open>strftime\<close> of the C library.
  \<^verbatim>\<open>%m\<close>, \<^verbatim>\<open>%d\<close>, \<^verbatim>\<open>%H\<close>, \<^verbatim>\<open>%M\<close> and \<^verbatim>\<open>%S\<close> are two digits, padded with a zero. \<^verbatim>\<open>%Y\<close> is
  the year as a decimal number, which the C library of Linux does not pad: a year below
  1000 is rendered in fewer than four digits.
\<close>

definition pad2 :: "nat \<Rightarrow> string" where
  "pad2 n = [digit_char (n div 10 mod 10), digit_char (n mod 10)]"

definition strftime_COMPRESS_FMT :: "datetime \<Rightarrow> string" where
  "strftime_COMPRESS_FMT t =
     str_nat (year t) @ pad2 (month t) @ pad2 (day t) @ pad2 (hour t) @ pad2 (minute t)
       @ pad2 (second t)"


subsection \<open>Configuration and output\<close>

text \<open>The dictionary \<^verbatim>\<open>cli_vars\<close> that \<^verbatim>\<open>main\<close> builds from the parsed arguments.\<close>

record cli_vars =
  filename :: string
  highcps :: int
  interval :: int
  lowcps :: int
  protocol :: string
  suppress :: string
  interface :: "string option"
  zone :: "string option"

text \<open>
  A printed line. \<open>Text\<close> is a line without numbers; \<open>Progress h t c\<close> is
  \<^verbatim>\<open>f'{highlight}{ts} cps is {cps}'\<close>; \<open>Fixed p x n s\<close> is the text \<open>p\<close>, the number \<open>x\<close>
  formatted with \<open>n\<close> decimals, and the text \<open>s\<close>.
\<close>

datatype line =
    Text string
  | Progress string datetime real
  | Fixed string real nat string

subsection \<open>Evaluating a bucket\<close>

text \<open>\<^verbatim>\<open>evaluate_row(cpslist, count, ts, cli_vars)\<close>; the list is returned, not mutated.\<close>

definition evaluate_row ::
  "real list \<Rightarrow> int \<Rightarrow> datetime option \<Rightarrow> cli_vars \<Rightarrow> line list
     \<Rightarrow> (failure \<times> line list) + (real list \<times> line list)" where
  "evaluate_row cpslist count ts cli out =
     (case ts of
        None \<Rightarrow> Inr (cpslist, out)
      | Some t \<Rightarrow>
          if interval cli = 0 then Inl (ZeroDivisionError, out)
          else
            (let cps = real_of_int count / real_of_int (interval cli);
                 retained = (1 < count \<and> real_of_int (lowcps cli) < cps
                               \<and> cps < real_of_int (highcps cli));
                 cpslist' = (if retained then cpslist @ [cps] else cpslist);
                 highlight = (if retained then ''** '' else [])
             in if suppress cli \<noteq> ''true''
                then Inr (cpslist', out @ [Progress highlight t cps])
                else Inr (cpslist', out)))"

subsection \<open>From the count table to the samples\<close>

text \<open>
  The state of the loop of \<^verbatim>\<open>evaluate_cpsdict\<close>: the samples so far, the running count,
  the anchor \<^verbatim>\<open>previous_ts\<close> and the lines printed. \<open>cps_step\<close> is the body of the loop for
  one key; \<open>iv\<close> is the \<^verbatim>\<open>timedelta\<close> \<^verbatim>\<open>interval\<close>.
\<close>

type_synonym loop_state = "real list \<times> int \<times> datetime \<times> line list"

definition cps_step ::
  "(string \<times> int) list \<Rightarrow> cli_vars \<Rightarrow> timedelta \<Rightarrow> string \<Rightarrow> loop_state
     \<Rightarrow> (failure \<times> line list) + loop_state" where
  "cps_step cpsdict cli iv key st =
     (case st of (cpslist, count, previous_ts, out) \<Rightarrow>
        (case strptime_COMPRESS_FMT key of
           None \<Rightarrow> Inl (ValueError, out)
         | Some ts \<Rightarrow>
             if datetime_sub ts previous_ts \<le> timedelta_truediv iv 2
             then Inr (cpslist, count + 1, previous_ts, out)
             else (case evaluate_row cpslist count (Some previous_ts) cli out of
                     Inl e \<Rightarrow> Inl e
                   | Inr (cpslist', out') \<Rightarrow>
                       (case map_of cpsdict key of
                          None \<Rightarrow> Inl (KeyError, out')
                        | Some c \<Rightarrow> Inr (cpslist', c, ts, out')))))"

fun cps_loop ::
  "(string \<times> int) list \<Rightarrow> cli_vars \<Rightarrow> timedelta \<Rightarrow> string list \<Rightarrow> loop_state
     \<Rightarrow> (failure \<times> line list) + loop_state" where
  "cps_loop cpsdict cli iv [] st = Inr st"
| "cps_loop cpsdict cli iv (key # keys) st =
     (case cps_step cpsdict cli iv key st of
        Inl e \<Rightarrow> Inl e
      | Inr st' \<Rightarrow> cps_loop cpsdict cli iv keys st')"

text \<open>
  \<^verbatim>\<open>evaluate_cpsdict(cpsdict, cli_vars)\<close>. The bare \<^verbatim>\<open>return\<close> on an empty table gives
  \<^verbatim>\<open>None\<close>; otherwise the list of samples is returned. \<^verbatim>\<open>sorted(cpsdict)\<close> orders the keys
  as strings.
\<close>

definition evaluate_cpsdict ::
  "(string \<times> int) list \<Rightarrow> cli_vars \<Rightarrow> line list
     \<Rightarrow> (failure \<times> line list) + (real list option \<times> line list)" where
  "evaluate_cpsdict cpsdict cli out =
     (if cpsdict = [] then Inr (None, out)
      else case timedelta_seconds (interval cli) of
        None \<Rightarrow> Inl (OverflowError, out)
      | Some iv \<Rightarrow>
          (case sort (map fst cpsdict) of
             [] \<Rightarrow> Inl (IndexError, out)
           | previous_key # keys \<Rightarrow>
               (case strptime_COMPRESS_FMT previous_key of
                  None \<Rightarrow> Inl (ValueError, out)
                | Some previous_ts \<Rightarrow>
                    (case map_of cpsdict previous_key of
                       None \<Rightarrow> Inl (KeyError, out)
                     | Some count \<Rightarrow>
                         (case cps_loop cpsdict cli iv keys ([], count, previous_ts, out) of
                            Inl e \<Rightarrow> Inl e
                          | Inr (cpslist, count', ts', out') \<Rightarrow>
                              (case evaluate_row cpslist count' (Some ts') cli out' of
                                 Inl e \<Rightarrow> Inl e
                               | Inr (cpslist', out'') \<Rightarrow> Inr (Some cpslist', out'')))))))"

subsection \<open>Building the count table\<close>

text \<open>
  What iterating the \<^verbatim>\<open>csv.DictReader\<close> gives next: a row, a \<^verbatim>\<open>csv.Error\<close> or a
  \<^verbatim>\<open>UnicodeDecodeError\<close>, each with the reader's \<^verbatim>\<open>line_num\<close> at that moment and, for the
  two exceptions, the text of the exception.
\<close>

datatype csv_event =
    Row nat row
  | CsvError nat string
  | DecodeError nat string

text \<open>The message of the two \<^verbatim>\<open>sys.exit\<close> calls on a bad line.\<close>

definition exit_message :: "string \<Rightarrow> nat \<Rightarrow> string \<Rightarrow> string" where
  "exit_message fname line_num errmsg =
     ''ERROR: file: '' @ fname @ '', line: '' @ str_nat line_num @ ''; '' @ errmsg"

text \<open>
  The update of the table for one key: \<^verbatim>\<open>if cpsdict.get(k): cpsdict[k] += 1\<close>, otherwise
  \<^verbatim>\<open>cpsdict[k] = 1\<close>. The test is the truthiness of the stored count.
\<close>

definition count_key :: "(string \<times> int) list \<Rightarrow> string \<Rightarrow> (string \<times> int) list" where
  "count_key cpsdict k =
     (case map_of cpsdict k of
        Some c \<Rightarrow> if c \<noteq> 0 then AList.update k (c + 1) cpsdict else AList.update k 1 cpsdict
      | None \<Rightarrow> AList.update k 1 cpsdict)"

text \<open>
  The loop of \<^verbatim>\<open>process_csvfile\<close> over the reader, from a table \<open>cpsdict\<close>. Only
  \<^verbatim>\<open>csv.Error\<close> is caught there; every other exception leaves the function.
\<close>

fun process_rows :: "cli_vars \<Rightarrow> csv_event list \<Rightarrow> (string \<times> int) list
    \<Rightarrow> failure + (string \<times> int) list" where
  "process_rows cli [] cpsdict = Inr cpsdict"
| "process_rows cli (CsvError n errmsg # rest) cpsdict =
     Inl (SystemExit (exit_message (filename cli) n errmsg))"
| "process_rows cli (DecodeError n errmsg # rest) cpsdict = Inl (UnicodeDecodeError n errmsg)"
| "process_rows cli (Row n row # rest) cpsdict =
     (case skip_row row (interface cli) (protocol cli) (zone cli) of
        Inl e \<Rightarrow> Inl e
      | Inr True \<Rightarrow> process_rows cli rest cpsdict
      | Inr False \<Rightarrow>
          (case row START_TIME of
             None \<Rightarrow> Inl KeyError
           | Some s \<Rightarrow>
               (case strptime_FMT s of
                  None \<Rightarrow> Inl ValueError
                | Some t1 \<Rightarrow>
                    process_rows cli rest (count_key cpsdict (strftime_COMPRESS_FMT t1)))))"

definition process_csvfile :: "csv_event list \<Rightarrow> cli_vars \<Rightarrow> failure + (string \<times> int) list" where
  "process_csvfile reader cli = process_rows cli reader []"

text \<open>
  The key a row contributes to, when the row survives the filter and its time parses;
  the number of rows of a reader that contribute to a key.
\<close>

definition row_key :: "cli_vars \<Rightarrow> csv_event \<Rightarrow> string option" where
  "row_key cli ev =
     (case ev of
        Row n row \<Rightarrow>
          (if skip_row row (interface cli) (protocol cli) (zone cli) = Inr False
           then (case row START_TIME of
                   None \<Rightarrow> None
                 | Some s \<Rightarrow> map_option strftime_COMPRESS_FMT (strptime_FMT s))
           else None)
      | _ \<Rightarrow> None)"

definition occurrences :: "cli_vars \<Rightarrow> csv_event list \<Rightarrow> string \<Rightarrow> nat" where
  "occurrences cli reader k = length (filter (\<lambda>ev. row_key cli ev = Some k) reader)"

subsection \<open>Statistics and the summary\<close>

text \<open>
  \<^verbatim>\<open>statistics.mean\<close> and \<^verbatim>\<open>statistics.stdev\<close> of the Python library, which compute the sum
  and the sum of squared deviations exactly; \<^verbatim>\<open>None\<close> stands for their
  \<^verbatim>\<open>StatisticsError\<close> on too few data points.
\<close>

definition statistics_mean :: "real list \<Rightarrow> real option" where
  "statistics_mean xs = (if xs = [] then None else Some (sum_list xs / real (length xs)))"

definition statistics_stdev :: "real list \<Rightarrow> real option" where
  "statistics_stdev xs =
     (if length xs < 2 then None
      else (let m = sum_list xs / real (length xs)
            in Some (sqrt (sum_list (map (\<lambda>x. (x - m)\<^sup>2) xs) / real (length xs - 1)))))"

text \<open>\<^verbatim>\<open>max\<close> of a non-empty list.\<close>

fun max_list :: "real list \<Rightarrow> real" where
  "max_list [] = 0"
| "max_list (x # xs) = fold max xs x"

definition print_thresholds :: "real \<Rightarrow> real \<Rightarrow> real \<Rightarrow> line list \<Rightarrow> line list" where
  "print_thresholds peak mean stdev out =
     out @ [Text ''********** Suggested Threshold Values **********'',
            Fixed ''Alert Threshold = '' (mean + stdev) 3 [],
            Fixed ''Activate Threshold = '' (1.1 * peak) 3 [],
            Fixed ''Max Threshold = '' (1.1 * 1.1 * peak) 3 []]"

definition insufficient_message :: string where
  "insufficient_message = ''ERROR: Need a least two data points to calculate standard deviation.''"

definition print_stats :: "real list \<Rightarrow> string \<Rightarrow> line list \<Rightarrow> (failure \<times> line list) + line list" where
  "print_stats cpslist header out =
     (if cpslist = [] then Inr out
      else if length cpslist = 1 then Inl (SystemExit insufficient_message, out)
      else (case statistics_mean cpslist of
              None \<Rightarrow> Inl (StatisticsError, out)
            | Some mean \<Rightarrow>
                (case statistics_stdev cpslist of
                   None \<Rightarrow> Inl (StatisticsError, out)
                 | Some stdev \<Rightarrow>
                     Inr (print_thresholds (max_list cpslist) mean stdev
                            (out @ [Fixed (''Max cps for '' @ header @ '' is= '') (max_list cpslist) 0 [],
                                    Fixed (''Avg cps for '' @ header @ '' is= '') mean 3 [CHR 0x0A],
                                    Fixed (''Standard Deviation for '' @ header @ '' is= '') stdev 3
                                      [CHR 0x0A]])))))"

text \<open>How an f-string renders an optional string.\<close>

fun str_opt :: "string option \<Rightarrow> string" where
  "str_opt None = ''None''"
| "str_opt (Some s) = s"

definition stats_header :: "cli_vars \<Rightarrow> string" where
  "stats_header cli =
     (if truthy (zone cli) then ''zone='' @ str_opt (zone cli)
      else ''interface='' @ str_opt (interface cli))"

definition stats_banner :: "cli_vars \<Rightarrow> line" where
  "stats_banner cli =
     Text (''CPS Stats for '' @ stats_header cli @ '' and protocol='' @ protocol cli)"

text \<open>\<^verbatim>\<open>print_results(cpslist, cli_vars)\<close>; \<^verbatim>\<open>not cpslist\<close> holds of \<^verbatim>\<open>None\<close> and of the empty list.\<close>

definition print_results ::
  "real list option \<Rightarrow> cli_vars \<Rightarrow> line list \<Rightarrow> (failure \<times> line list) + line list" where
  "print_results cpslist cli out =
     (case cpslist of
        None \<Rightarrow> Inr out
      | Some xs \<Rightarrow>
          if xs = [] then Inr out
          else print_stats xs (stats_header cli) (out @ [stats_banner cli]))"

subsection \<open>The run\<close>

text \<open>
  What \<^verbatim>\<open>open\<close> gives: one of the two errors that \<^verbatim>\<open>main\<close> catches, or the reader over the
  file. \<open>main\<close> is the body of \<^verbatim>\<open>main\<close> after the arguments are parsed; it returns the lines
  printed and how the run ends: \<^verbatim>\<open>None\<close> for a normal end, otherwise the \<^verbatim>\<open>SystemExit\<close> or
  the exception that nothing catches.
\<close>

datatype source = FileNotFound string | PermissionDenied string | Opened "csv_event list"

fun main_except :: "cli_vars \<Rightarrow> failure \<Rightarrow> failure" where
  "main_except cli (UnicodeDecodeError n errmsg) = SystemExit (exit_message (filename cli) n errmsg)"
| "main_except cli e = e"

fun main :: "source \<Rightarrow> cli_vars \<Rightarrow> line list \<times> failure option" where
  "main (FileNotFound errmsg) cli = ([], Some (SystemExit errmsg))"
| "main (PermissionDenied errmsg) cli = ([], Some (SystemExit errmsg))"
| "main (Opened reader) cli =
     (case process_csvfile reader cli of
        Inl e \<Rightarrow> ([], Some (main_except cli e))
      | Inr cpsdict \<Rightarrow>
          (case evaluate_cpsdict cpsdict cli [] of
             Inl (e, out) \<Rightarrow> (out, Some (main_except cli e))
           | Inr (cpslist, out) \<Rightarrow>
               (case print_results cpslist cli out of
                  Inl (e, out') \<Rightarrow> (out', Some (main_except cli e))
                | Inr out' \<Rightarrow> (out', None))))"

text \<open>The defaults of the argument parser, for the interface \<^verbatim>\<open>eth0\<close>.\<close>

definition cli_default :: cli_vars where
  "cli_default =
     \<lparr>filename = ''log.csv'', highcps = 10000, interval = 1, lowcps = 1, protocol = ''all'',
      suppress = ''true'', interface = Some ''eth0'', zone = None\<rparr>"

text \<open>All values of a list lie strictly between \<^verbatim>\<open>lowcps\<close> and \<^verbatim>\<open>highcps\<close>.\<close>

definition within_bounds :: "cli_vars \<Rightarrow> real list \<Rightarrow> bool" where
  "within_bounds cli xs =
     list_all (\<lambda>c. real_of_int (lowcps cli) < c \<and> c < real_of_int (highcps cli)) xs"

text \<open>A table holds exactly the keys that \<open>n\<close> counts at least once, each with its count.\<close>

definition counts_rows :: "(string \<times> int) list \<Rightarrow> (string \<Rightarrow> nat) \<Rightarrow> bool" where
  "counts_rows cpsdict n = (\<forall>k. map_of cpsdict k = (if n k = 0 then None else Some (int (n k))))"

subsection \<open>The specification of the derivation\<close>

text \<open>
  Stage B as the specification words it, to compare \<^verbatim>\<open>evaluate_cpsdict\<close> with. The
  entries of a table are its keys in sorted order, each parsed, with their counts;
  \<^verbatim>\<open>None\<close> if a key does not parse.
\<close>

fun parsed_entries :: "(string \<times> int) list \<Rightarrow> string list \<Rightarrow> (datetime \<times> int) list option" where
  "parsed_entries cpsdict [] = Some []"
| "parsed_entries cpsdict (k # ks) =
     (case strptime_COMPRESS_FMT k of
        None \<Rightarrow> None
      | Some t \<Rightarrow>
          (case map_of cpsdict k of
             None \<Rightarrow> None
           | Some c \<Rightarrow>
               (case parsed_entries cpsdict ks of
                  None \<Rightarrow> None
                | Some es \<Rightarrow> Some ((t, c) # es))))"

definition table_entries :: "(string \<times> int) list \<Rightarrow> (datetime \<times> int) list option" where
  "table_entries cpsdict = parsed_entries cpsdict (sort (map fst cpsdict))"

text \<open>
  The buckets \<open>(count, anchor)\<close> in the order they are evaluated, for a running bucket and
  the entries still to come: an entry whose time is at most half the interval after
  the anchor, compared as a fraction, joins the bucket and adds one to its count;
  any other entry closes the bucket and starts a new one with its own time and count;
  the last bucket is closed by the end of the entries.
\<close>

fun spec_buckets :: "int \<Rightarrow> datetime \<Rightarrow> int \<Rightarrow> (datetime \<times> int) list \<Rightarrow> (int \<times> datetime) list" where
  "spec_buckets i anchor n [] = [(n, anchor)]"
| "spec_buckets i anchor n ((t, c) # rest) =
     (if real_of_int (seconds_between t anchor) \<le> real_of_int i / 2
      then spec_buckets i anchor (n + 1) rest
      else (n, anchor) # spec_buckets i t c rest)"

text \<open>The cps of a bucket, the rule of retention, the samples and the progress lines.\<close>

definition spec_cps :: "cli_vars \<Rightarrow> int \<Rightarrow> real" where
  "spec_cps cli n = real_of_int n / real_of_int (interval cli)"

definition spec_retained :: "cli_vars \<Rightarrow> int \<Rightarrow> bool" where
  "spec_retained cli n =
     (1 < n \<and> real_of_int (lowcps cli) < spec_cps cli n \<and> spec_cps cli n < real_of_int (highcps cli))"

definition spec_samples :: "cli_vars \<Rightarrow> (int \<times> datetime) list \<Rightarrow> real list" where
  "spec_samples cli bs = map (\<lambda>(n, a). spec_cps cli n) (filter (\<lambda>(n, a). spec_retained cli n) bs)"

definition spec_progress :: "cli_vars \<Rightarrow> (int \<times> datetime) list \<Rightarrow> line list" where
  "spec_progress cli bs =
     (if suppress cli \<noteq> ''true''
      then map (\<lambda>(n, a). Progress (if spec_retained cli n then ''** '' else []) a (spec_cps cli n)) bs
      else [])"

section \<open>Theorems\<close>

subsection \<open>The row filter\<close>

lemma skip_row_selected:
  assumes "valid_criteria iface zn"
  shows "skip_row row iface proto zn =
     (case row (target_field iface) of
        None \<Rightarrow> Inl KeyError
      | Some v \<Rightarrow>
          if Some v \<noteq> target_value iface zn then Inr True
          else if proto = ''all'' then Inr False
          else (case row IP_PROTO of
                  None \<Rightarrow> Inl KeyError
                | Some p \<Rightarrow>
                    if proto = ''other'' \<and> p \<notin> set PROTO_LIST then Inr False
                    else if proto = p then Inr False
                    else Inr True))"
proof (cases iface)
  case None
  have tf: "target_field None = ''Source Zone''" and tv: "target_value None zn = zn"
    by (simp_all add: target_field_def target_value_def)
  show ?thesis
    unfolding None tf tv by (simp add: skip_row_def)
next
  case (Some i)
  with assms have ne: "i \<noteq> []"
    by (simp add: valid_criteria_def split: option.splits)
  have tf: "target_field (Some i) = ''Inbound Interface''"
    and tv: "target_value (Some i) zn = Some i"
    by (simp_all add: target_field_def target_value_def)
  show ?thesis
    unfolding Some tf tv using ne by (simp add: skip_row_def)
qed

text \<open>
  Claim C4. For valid criteria and a row that has the selected target column: when the
  field differs from the target the row is skipped whatever the protocol selector is
  and whatever the row's protocol column holds (also when the row has no protocol
  column at all, so the protocol is never consulted); when the field equals the target,
  the selector \<^verbatim>\<open>all\<close> includes the row without reading its protocol, and otherwise the
  row is included iff the selector is \<^verbatim>\<open>other\<close> and the row's protocol is none of icmp,
  tcp, udp, or the row's protocol equals the selector.
\<close>

theorem skip_row_filter:
  assumes "valid_criteria iface zn"
    and "row (target_field iface) = Some v"
  shows "(Some v \<noteq> target_value iface zn \<longrightarrow>
            skip_row row iface proto zn = Inr True)
       \<and> (Some v = target_value iface zn \<and> proto = ''all'' \<longrightarrow>
            skip_row row iface proto zn = Inr False)
       \<and> (Some v = target_value iface zn \<and> row IP_PROTO = Some p \<longrightarrow>
            skip_row row iface proto zn = Inr (\<not> protocol_included proto p))"
proof -
  have sel: "skip_row row iface proto zn =
     (if Some v \<noteq> target_value iface zn then Inr True
      else if proto = ''all'' then Inr False
      else (case row IP_PROTO of
              None \<Rightarrow> Inl KeyError
            | Some p \<Rightarrow>
                if proto = ''other'' \<and> p \<notin> set PROTO_LIST then Inr False
                else if proto = p then Inr False
                else Inr True))"
    unfolding skip_row_selected [OF assms(1)] assms(2) by simp
  show ?thesis
    unfolding sel by (simp add: protocol_included_def PROTO_LIST_def eq_commute [of proto])
qed

theorem skip_row_filter_witness:
  "valid_criteria (Some ''eth0'') None
   \<and> skip_row [''Inbound Interface'' \<mapsto> ''eth1''] (Some ''eth0'') ''other'' None = Inr True
   \<and> skip_row [''Inbound Interface'' \<mapsto> ''eth0''] (Some ''eth0'') ''all'' None = Inr False
   \<and> skip_row [''Inbound Interface'' \<mapsto> ''eth0'', ''IP Protocol'' \<mapsto> ''gre'']
        (Some ''eth0'') ''other'' None = Inr False
   \<and> skip_row [''Inbound Interface'' \<mapsto> ''eth0'', ''IP Protocol'' \<mapsto> ''tcp'']
        (Some ''eth0'') ''other'' None = Inr True"
proof -
  have v: "valid_criteria (Some ''eth0'') None"
    by (simp add: valid_criteria_def)
  have f: "target_field (Some ''eth0'') = ''Inbound Interface''"
    by (simp add: target_field_def)
  have t: "target_value (Some ''eth0'') None = Some ''eth0''"
    by (simp add: target_value_def)
  have a: "skip_row [''Inbound Interface'' \<mapsto> ''eth1''] (Some ''eth0'') ''other'' None = Inr True"
    using skip_row_filter [OF v, of "[''Inbound Interface'' \<mapsto> ''eth1'']" "''eth1''" "''other''" "''x''"]
    by (simp add: f t)
  have b: "skip_row [''Inbound Interface'' \<mapsto> ''eth0''] (Some ''eth0'') ''all'' None = Inr False"
    using skip_row_filter [OF v, of "[''Inbound Interface'' \<mapsto> ''eth0'']" "''eth0''" "''all''" "''x''"]
    by (simp add: f t)
  have c: "skip_row [''Inbound Interface'' \<mapsto> ''eth0'', ''IP Protocol'' \<mapsto> ''gre'']
        (Some ''eth0'') ''other'' None = Inr False"
    using skip_row_filter [OF v, of "[''Inbound Interface'' \<mapsto> ''eth0'', ''IP Protocol'' \<mapsto> ''gre'']"
        "''eth0''" "''other''" "''gre''"]
    by (simp add: f t IP_PROTO_def protocol_included_def)
  have d: "skip_row [''Inbound Interface'' \<mapsto> ''eth0'', ''IP Protocol'' \<mapsto> ''tcp'']
        (Some ''eth0'') ''other'' None = Inr True"
    using skip_row_filter [OF v, of "[''Inbound Interface'' \<mapsto> ''eth0'', ''IP Protocol'' \<mapsto> ''tcp'']"
        "''eth0''" "''other''" "''tcp''"]
    by (simp add: f t IP_PROTO_def protocol_included_def)
  from v a b c d show ?thesis by simp
qed

subsection \<open>Evaluating a bucket\<close>

text \<open>
  Claim C2. For a bucket \<open>(count, ts)\<close> and a configuration whose interval is not zero,
  \<^verbatim>\<open>evaluate_row\<close> returns the list with \<open>cps = count / interval\<close> appended if
  \<open>1 < count\<close> and \<open>lowcps < cps < highcps\<close>, both strict, and the list unchanged
  otherwise; in particular a bucket with \<open>count \<le> 1\<close> is never retained, wherever its
  cps lies.
\<close>

theorem evaluate_row_retains:
  assumes "interval cli \<noteq> 0"
  shows "map_sum fst fst (evaluate_row cpslist count (Some ts) cli out) =
           Inr (if 1 < count
                   \<and> real_of_int (lowcps cli) < real_of_int count / real_of_int (interval cli)
                   \<and> real_of_int count / real_of_int (interval cli) < real_of_int (highcps cli)
                then cpslist @ [real_of_int count / real_of_int (interval cli)]
                else cpslist)
       \<and> (count \<le> 1 \<longrightarrow>
            map_sum fst fst (evaluate_row cpslist count (Some ts) cli out) = Inr cpslist)"
  using assms by (simp add: evaluate_row_def Let_def)

theorem evaluate_row_retains_witness:
  "interval cli_default \<noteq> 0
   \<and> map_sum fst fst (evaluate_row [] 2
         (Some \<lparr>year = 2024, month = 1, day = 1, hour = 0, minute = 0, second = 0\<rparr>)
         cli_default []) = Inr [2]
   \<and> map_sum fst fst (evaluate_row [] 1
         (Some \<lparr>year = 2024, month = 1, day = 1, hour = 0, minute = 0, second = 0\<rparr>)
         (cli_default\<lparr>lowcps := 0\<rparr>) []) = Inr []"
proof -
  have a: "interval cli_default \<noteq> 0" and b: "interval (cli_default\<lparr>lowcps := 0\<rparr>) \<noteq> 0"
    by (simp_all add: cli_default_def)
  show ?thesis
    using a
      evaluate_row_retains [OF a, of "[]" 2
        "\<lparr>year = 2024, month = 1, day = 1, hour = 0, minute = 0, second = 0\<rparr>" "[]"]
      evaluate_row_retains [OF b, of "[]" 1
        "\<lparr>year = 2024, month = 1, day = 1, hour = 0, minute = 0, second = 0\<rparr>" "[]"]
    by (simp add: cli_default_def)
qed

subsection \<open>The derivation of the samples\<close>

lemma evaluate_row_spec:
  assumes "interval cli \<noteq> 0"
  shows "evaluate_row cpslist n (Some a) cli out
           = Inr (cpslist @ spec_samples cli [(n, a)], out @ spec_progress cli [(n, a)])"
  using assms
  by (simp add: evaluate_row_def spec_samples_def spec_progress_def spec_retained_def
      spec_cps_def Let_def)

lemma spec_samples_Cons:
  "spec_samples cli (b # bs) = spec_samples cli [b] @ spec_samples cli bs"
  by (simp add: spec_samples_def)

lemma spec_progress_Cons:
  "spec_progress cli (b # bs) = spec_progress cli [b] @ spec_progress cli bs"
  by (simp add: spec_progress_def)

lemma timedelta_half:
  assumes "timedelta_seconds n = Some iv"
  shows "timedelta_truediv iv 2 = n * 500000"
proof -
  from assms have iv: "iv = 2 * (n * 500000)"
    by (simp add: timedelta_seconds_def split: if_splits)
  show ?thesis
    unfolding iv timedelta_truediv_def divide_and_round_def by simp
qed

lemma merge_test_exact:
  assumes "timedelta_seconds n = Some iv"
  shows "(datetime_sub t anchor \<le> timedelta_truediv iv 2)
           = (real_of_int (seconds_between t anchor) \<le> real_of_int n / 2)"
proof -
  define s where "s = seconds_between t anchor"
  have "(s * 1000000 \<le> n * 500000) = ((2 * s) * 500000 \<le> n * 500000)"
    by simp
  also have "\<dots> = (2 * s \<le> n)"
    by (simp only: mult_le_cancel_right) simp
  also have "\<dots> = (real_of_int (2 * s) \<le> real_of_int n)"
    by (simp only: of_int_le_iff)
  also have "\<dots> = (real_of_int s \<le> real_of_int n / 2)"
    by (simp add: field_simps)
  finally show ?thesis
    by (simp add: timedelta_half [OF assms] datetime_sub_def s_def)
qed

lemma cps_step_exact:
  assumes "strptime_COMPRESS_FMT key = Some t"
    and "timedelta_seconds (interval cli) = Some iv"
    and "map_of cpsdict key = Some c"
  shows "cps_step cpsdict cli iv key (cpslist, count, anchor, out) =
     (if real_of_int (seconds_between t anchor) \<le> real_of_int (interval cli) / 2
      then Inr (cpslist, count + 1, anchor, out)
      else (case evaluate_row cpslist count (Some anchor) cli out of
              Inl e \<Rightarrow> Inl e
            | Inr (cpslist', out') \<Rightarrow> Inr (cpslist', c, t, out')))"
  by (simp add: cps_step_def assms(1,3) merge_test_exact [OF assms(2)]
      split: sum.splits prod.splits)

lemma cps_loop_buckets:
  assumes "parsed_entries cpsdict keys = Some entries"
    and "timedelta_seconds (interval cli) = Some iv"
    and "interval cli \<noteq> 0"
  shows "\<exists>xs n a l.
           cps_loop cpsdict cli iv keys (cpslist, count, anchor, out) = Inr (xs, n, a, l)
           \<and> evaluate_row xs n (Some a) cli l
               = Inr (cpslist @ spec_samples cli (spec_buckets (interval cli) anchor count entries),
                      out @ spec_progress cli (spec_buckets (interval cli) anchor count entries))"
  using assms(1)
proof (induction keys arbitrary: entries cpslist count anchor out)
  case Nil
  then show ?case
    by (simp add: evaluate_row_spec [OF assms(3)])
next
  case (Cons key keys)
  from Cons.prems obtain t c es where
    t: "strptime_COMPRESS_FMT key = Some t" and c: "map_of cpsdict key = Some c"
    and es: "parsed_entries cpsdict keys = Some es" and entries: "entries = (t, c) # es"
    by (auto split: option.splits)
  note step = cps_step_exact [OF t assms(2) c, of cpslist count anchor out]
  let ?bs = "spec_buckets (interval cli) anchor count entries"
  show ?case
  proof (cases "real_of_int (seconds_between t anchor) \<le> real_of_int (interval cli) / 2")
    case True
    with step have s1: "cps_step cpsdict cli iv key (cpslist, count, anchor, out)
        = Inr (cpslist, count + 1, anchor, out)"
      by (simp only: if_True)
    from True have bs: "?bs = spec_buckets (interval cli) anchor (count + 1) es"
      unfolding entries by (simp only: spec_buckets.simps if_True)
    from Cons.IH [OF es, of cpslist "count + 1" anchor out] obtain xs n a l where
      "cps_loop cpsdict cli iv keys (cpslist, count + 1, anchor, out) = Inr (xs, n, a, l)"
      and "evaluate_row xs n (Some a) cli l = Inr (cpslist @ spec_samples cli ?bs,
             out @ spec_progress cli ?bs)"
      unfolding bs by blast
    then show ?thesis
      by (simp only: cps_loop.simps s1 sum.case) blast
  next
    case False
    let ?x = "(count, anchor)"
    from False step have s1: "cps_step cpsdict cli iv key (cpslist, count, anchor, out)
        = Inr (cpslist @ spec_samples cli [?x], c, t, out @ spec_progress cli [?x])"
      by (simp only: if_False evaluate_row_spec [OF assms(3)] sum.case prod.case)
    from False have bs: "?bs = ?x # spec_buckets (interval cli) t c es"
      unfolding entries by (simp only: spec_buckets.simps if_False)
    have sm: "spec_samples cli ?bs
        = spec_samples cli [?x] @ spec_samples cli (spec_buckets (interval cli) t c es)"
      and pr: "spec_progress cli ?bs
        = spec_progress cli [?x] @ spec_progress cli (spec_buckets (interval cli) t c es)"
      unfolding bs by (rule spec_samples_Cons, rule spec_progress_Cons)
    from Cons.IH [OF es, of "cpslist @ spec_samples cli [?x]" c t
        "out @ spec_progress cli [?x]"] obtain xs n a l where
      "cps_loop cpsdict cli iv keys
         (cpslist @ spec_samples cli [?x], c, t, out @ spec_progress cli [?x]) = Inr (xs, n, a, l)"
      and "evaluate_row xs n (Some a) cli l = Inr (cpslist @ spec_samples cli ?bs,
             out @ spec_progress cli ?bs)"
      unfolding sm pr append_assoc by blast
    then show ?thesis
      by (simp only: cps_loop.simps s1 sum.case) blast
  qed
qed

lemma evaluate_cpsdict_refines:
  assumes "table_entries cpsdict = Some ((t0, c0) # entries)"
    and "timedelta_seconds (interval cli) \<noteq> None"
    and "interval cli \<noteq> 0"
  shows "evaluate_cpsdict cpsdict cli out =
           Inr (Some (spec_samples cli (spec_buckets (interval cli) t0 c0 entries)),
                out @ spec_progress cli (spec_buckets (interval cli) t0 c0 entries))"
proof -
  from assms(2) obtain iv where iv: "timedelta_seconds (interval cli) = Some iv"
    by auto
  from assms(1) obtain k0 keys where
    keys: "sort (map fst cpsdict) = k0 # keys"
    and t0: "strptime_COMPRESS_FMT k0 = Some t0" and c0: "map_of cpsdict k0 = Some c0"
    and es: "parsed_entries cpsdict keys = Some entries"
    by (cases "sort (map fst cpsdict)") (auto simp: table_entries_def split: option.splits)
  from keys have ne: "cpsdict \<noteq> []"
    by auto
  from cps_loop_buckets [OF es iv assms(3), of "[]" c0 t0 out] obtain xs n a l where
    loop: "cps_loop cpsdict cli iv keys ([], c0, t0, out) = Inr (xs, n, a, l)"
    and last: "evaluate_row xs n (Some a) cli l
       = Inr (spec_samples cli (spec_buckets (interval cli) t0 c0 entries),
              out @ spec_progress cli (spec_buckets (interval cli) t0 c0 entries))"
    by auto
  show ?thesis
    by (simp add: evaluate_cpsdict_def ne iv keys t0 c0 loop last)
qed


text \<open>
  Claim C1. For a non-empty table whose keys parse, and an interval that is not zero and
  that \<^verbatim>\<open>timedelta\<close> accepts: \<^verbatim>\<open>evaluate_cpsdict\<close> takes the keys in sorted order, starts
  a bucket at the first with its stored count, lets each later key join the running
  bucket iff its time is at most half the interval after the anchor, compared exactly
  as a fraction, which adds one to the count whatever count the key stores, and
  otherwise evaluates the bucket and starts a new one at the key's time with the key's
  stored count; the last bucket is evaluated at the end. The samples returned and the
  lines printed are those of the buckets so formed.
\<close>

theorem evaluate_cpsdict_buckets:
  assumes "table_entries cpsdict = Some ((t0, c0) # entries)"
    and "timedelta_seconds (interval cli) \<noteq> None"
    and "interval cli \<noteq> 0"
  shows "evaluate_cpsdict cpsdict cli out =
           Inr (Some (spec_samples cli (spec_buckets (interval cli) t0 c0 entries)),
                out @ spec_progress cli (spec_buckets (interval cli) t0 c0 entries))"
  using assms by (rule evaluate_cpsdict_refines)

lemma parse_000000:
  "strptime_COMPRESS_FMT ''20240101000000''
     = Some \<lparr>year = 2024, month = 1, day = 1, hour = 0, minute = 0, second = 0\<rparr>"
  by code_simp

lemma parse_000001:
  "strptime_COMPRESS_FMT ''20240101000001''
     = Some \<lparr>year = 2024, month = 1, day = 1, hour = 0, minute = 0, second = 1\<rparr>"
  by code_simp

lemma one_second_apart:
  "seconds_between \<lparr>year = 2024, month = 1, day = 1, hour = 0, minute = 0, second = 1\<rparr>
     \<lparr>year = 2024, month = 1, day = 1, hour = 0, minute = 0, second = 0\<rparr> = 1"
  by (simp add: seconds_between_def toordinal_def seconds_of_day_def)

lemma sort_two_keys:
  "sort [''20240101000001'', ''20240101000000''] = [''20240101000000'', ''20240101000001'']"
  by code_simp

lemma entries_two_keys:
  "table_entries [(''20240101000001'', 7), (''20240101000000'', 5)]
     = Some [(\<lparr>year = 2024, month = 1, day = 1, hour = 0, minute = 0, second = 0\<rparr>, 5),
             (\<lparr>year = 2024, month = 1, day = 1, hour = 0, minute = 0, second = 1\<rparr>, 7)]"
proof -
  have m: "map fst [(''20240101000001'', 7::int), (''20240101000000'', 5)]
      = [''20240101000001'', ''20240101000000'']"
    by simp
  have l0: "map_of [(''20240101000001'', 7::int), (''20240101000000'', 5)] ''20240101000000'' = Some 5"
    and l1: "map_of [(''20240101000001'', 7::int), (''20240101000000'', 5)] ''20240101000001'' = Some 7"
    by simp_all
  show ?thesis
    unfolding table_entries_def m sort_two_keys parsed_entries.simps parse_000000 parse_000001 l0 l1
    by (simp only: option.case)
qed

text \<open>
  A table filled out of order, with keys one second apart: an interval of 1 leaves two
  buckets with the stored counts 5 and 7; an interval of 3 merges them into one bucket
  of count 6, the stored 7 counting as one.
\<close>

theorem evaluate_cpsdict_buckets_witness:
  "table_entries [(''20240101000001'', 7), (''20240101000000'', 5)]
     = Some [(\<lparr>year = 2024, month = 1, day = 1, hour = 0, minute = 0, second = 0\<rparr>, 5),
             (\<lparr>year = 2024, month = 1, day = 1, hour = 0, minute = 0, second = 1\<rparr>, 7)]
   \<and> timedelta_seconds (interval cli_default) \<noteq> None
   \<and> interval cli_default \<noteq> 0
   \<and> evaluate_cpsdict [(''20240101000001'', 7), (''20240101000000'', 5)] cli_default []
       = Inr (Some [5, 7], [])
   \<and> evaluate_cpsdict [(''20240101000001'', 7), (''20240101000000'', 5)]
         (cli_default\<lparr>interval := 3\<rparr>) []
       = Inr (Some [2], [])"
proof -
  let ?t0 = "\<lparr>year = 2024, month = 1, day = 1, hour = 0, minute = 0, second = 0\<rparr>"
  let ?t1 = "\<lparr>year = 2024, month = 1, day = 1, hour = 0, minute = 0, second = 1\<rparr>"
  let ?c3 = "cli_default\<lparr>interval := 3\<rparr>"
  have i1: "timedelta_seconds (interval cli_default) \<noteq> None"
    and z1: "interval cli_default \<noteq> 0"
    and i3: "timedelta_seconds (interval ?c3) \<noteq> None"
    and z3: "interval ?c3 \<noteq> 0"
    by (simp_all add: timedelta_seconds_def cli_default_def)
  have h1: "\<not> real_of_int 1 \<le> real_of_int (interval cli_default) / 2"
    and h3: "real_of_int 1 \<le> real_of_int (interval ?c3) / 2"
    by (simp_all add: cli_default_def)
  have b1: "spec_buckets (interval cli_default) ?t0 5 [(?t1, 7)] = [(5, ?t0), (7, ?t1)]"
    unfolding spec_buckets.simps one_second_apart if_not_P [OF h1] ..
  have b3: "spec_buckets (interval ?c3) ?t0 5 [(?t1, 7)] = [(5 + 1, ?t0)]"
    unfolding spec_buckets.simps one_second_apart if_P [OF h3] ..
  have s1: "spec_samples cli_default [(5, ?t0), (7, ?t1)] = [5, 7]"
    and p1: "spec_progress cli_default [(5, ?t0), (7, ?t1)] = []"
    by (simp_all add: spec_samples_def spec_progress_def spec_retained_def spec_cps_def
        cli_default_def)
  have s3: "spec_samples ?c3 [(5 + 1, ?t0)] = [2]"
    and p3: "spec_progress ?c3 [(5 + 1, ?t0)] = []"
    by (simp_all add: spec_samples_def spec_progress_def spec_retained_def spec_cps_def
        cli_default_def)
  note r1 = evaluate_cpsdict_buckets [OF entries_two_keys i1 z1, of "[]",
      unfolded b1 s1 p1 append_Nil]
  note r3 = evaluate_cpsdict_buckets [OF entries_two_keys i3 z3, of "[]",
      unfolded b3 s3 p3 append_Nil]
  from entries_two_keys i1 z1 r1 r3 show ?thesis
    by (intro conjI)
qed

text \<open>
  The two tables of the specification: one second apart, an interval of 1 keeps the keys
  in buckets of their own, which the count rule discards; an interval of 3 merges them
  into one bucket of count 2.
\<close>

lemma evaluate_cpsdict_interval_1:
  "evaluate_cpsdict [(''20240101000000'', 1), (''20240101000001'', 1)] cli_default []
     = Inr (Some [], [])"
  by code_simp

lemma evaluate_cpsdict_interval_3:
  "evaluate_cpsdict [(''20240101000000'', 1), (''20240101000001'', 1)]
     (cli_default\<lparr>interval := 3, lowcps := 0\<rparr>) [] = Inr (Some [2 / 3], [])"
  by code_simp

subsection \<open>The empty table\<close>

text \<open>
  On the empty table the source returns by a bare \<^verbatim>\<open>return\<close>: the result is \<^verbatim>\<open>None\<close>, not
  the empty list.
\<close>

theorem evaluate_cpsdict_empty_counterexample:
  "evaluate_cpsdict [] cli_default [] \<noteq> Inr (Some [], [])"
  by (simp add: evaluate_cpsdict_def)

text \<open>
  Claim C8, amended. \<^verbatim>\<open>evaluate_cpsdict\<close> applied to an empty count table returns \<^verbatim>\<open>None\<close>
  at once, for every configuration and without printing; \<^verbatim>\<open>print_results\<close> treats \<^verbatim>\<open>None\<close>
  as it treats an empty sequence of samples and prints nothing.
\<close>

theorem evaluate_cpsdict_empty:
  "evaluate_cpsdict [] cli out = Inr (None, out) \<and> print_results None cli out = Inr out"
  by (simp add: evaluate_cpsdict_def print_results_def)

subsection \<open>Bounds of the retained samples\<close>

lemma spec_cps_inj:
  assumes "interval cli \<noteq> 0" and "spec_cps cli n = spec_cps cli m"
  shows "n = m"
  using assms by (simp add: spec_cps_def)

lemma spec_samples_member:
  assumes "interval cli \<noteq> 0" and "(n, a) \<in> set bs"
  shows "(spec_cps cli n \<in> set (spec_samples cli bs)) = spec_retained cli n"
proof
  assume "spec_cps cli n \<in> set (spec_samples cli bs)"
  then obtain m b where "(m, b) \<in> set bs" and r: "spec_retained cli m"
    and e: "spec_cps cli n = spec_cps cli m"
    by (auto simp: spec_samples_def)
  from spec_cps_inj [OF assms(1) e] r show "spec_retained cli n"
    by simp
next
  assume "spec_retained cli n"
  with assms(2) show "spec_cps cli n \<in> set (spec_samples cli bs)"
    by (force simp: spec_samples_def)
qed

lemma spec_samples_bounds:
  "within_bounds cli (spec_samples cli bs)"
  by (auto simp: within_bounds_def spec_samples_def spec_retained_def list_all_iff)

text \<open>
  Claim C5, amended. For every bucket that \<^verbatim>\<open>evaluate_cpsdict\<close> evaluates, its cps is in the
  list returned iff the count of the bucket exceeds 1 and the cps lies strictly between
  \<^verbatim>\<open>lowcps\<close> and \<^verbatim>\<open>highcps\<close>; and every value of the list returned lies strictly between
  the two.
\<close>

theorem evaluate_cpsdict_retained:
  assumes "table_entries cpsdict = Some ((t0, c0) # entries)"
    and "timedelta_seconds (interval cli) \<noteq> None"
    and "interval cli \<noteq> 0"
    and "(n, a) \<in> set (spec_buckets (interval cli) t0 c0 entries)"
  shows "case evaluate_cpsdict cpsdict cli out of
           Inl e \<Rightarrow> False
         | Inr (None, out') \<Rightarrow> False
         | Inr (Some cpslist, out') \<Rightarrow>
             (real_of_int n / real_of_int (interval cli) \<in> set cpslist)
               = (1 < n
                  \<and> real_of_int (lowcps cli) < real_of_int n / real_of_int (interval cli)
                  \<and> real_of_int n / real_of_int (interval cli) < real_of_int (highcps cli))
             \<and> within_bounds cli cpslist"
proof -
  note m = spec_samples_member [OF assms(3,4), unfolded spec_retained_def spec_cps_def]
  show ?thesis
    unfolding evaluate_cpsdict_refines [OF assms(1-3)] sum.case prod.case option.case
    using m spec_samples_bounds by blast
qed

lemma evaluate_one_bucket:
  "evaluate_cpsdict [(''20240101000000'', 2)] cli_default [] = Inr (Some [2], [])"
  by code_simp

lemma entries_one_key:
  "table_entries [(''20240101000000'', 2)]
     = Some [(\<lparr>year = 2024, month = 1, day = 1, hour = 0, minute = 0, second = 0\<rparr>, 2)]"
proof -
  have s: "sort (map fst [(''20240101000000'', 2::int)]) = [''20240101000000'']"
    by simp
  show ?thesis
    unfolding table_entries_def s parsed_entries.simps parse_000000
    by simp
qed

theorem evaluate_cpsdict_retained_witness:
  "table_entries [(''20240101000000'', 2)]
     = Some [(\<lparr>year = 2024, month = 1, day = 1, hour = 0, minute = 0, second = 0\<rparr>, 2)]
   \<and> evaluate_cpsdict [(''20240101000000'', 2)] cli_default [] = Inr (Some [2], [])
   \<and> real_of_int 2 / real_of_int (interval cli_default) \<in> set [2]
   \<and> within_bounds cli_default [2]"
proof -
  let ?t0 = "\<lparr>year = 2024, month = 1, day = 1, hour = 0, minute = 0, second = 0\<rparr>"
  have i: "timedelta_seconds (interval cli_default) \<noteq> None"
    and z: "interval cli_default \<noteq> 0"
    by (simp_all add: timedelta_seconds_def cli_default_def)
  have b: "(2, ?t0) \<in> set (spec_buckets (interval cli_default) ?t0 2 [])"
    by simp
  have r: "1 < (2::int) \<and> real_of_int (lowcps cli_default)
        < real_of_int 2 / real_of_int (interval cli_default)
      \<and> real_of_int 2 / real_of_int (interval cli_default) < real_of_int (highcps cli_default)"
    by (simp add: cli_default_def)
  note th = evaluate_cpsdict_retained [OF entries_one_key i z b, of "[]",
      unfolded evaluate_one_bucket sum.case prod.case option.case]
  from th r have "real_of_int 2 / real_of_int (interval cli_default) \<in> set [2]"
    and "within_bounds cli_default [2]"
    by blast+
  with entries_one_key evaluate_one_bucket show ?thesis
    by (intro conjI)
qed

text \<open>
  The converse of the claim as first stated fails: with \<^verbatim>\<open>lowcps = 0\<close>, a bucket of count 1
  over an interval of 1 has the cps 1, strictly between the bounds, and is not retained.
\<close>

theorem retained_iff_bounds_counterexample:
  "real_of_int (lowcps (cli_default\<lparr>lowcps := 0\<rparr>))
      < real_of_int 1 / real_of_int (interval (cli_default\<lparr>lowcps := 0\<rparr>))
   \<and> real_of_int 1 / real_of_int (interval (cli_default\<lparr>lowcps := 0\<rparr>))
      < real_of_int (highcps (cli_default\<lparr>lowcps := 0\<rparr>))
   \<and> evaluate_cpsdict [(''20240101000000'', 1)] (cli_default\<lparr>lowcps := 0\<rparr>) []
      = Inr (Some [], [])"
proof -
  have "evaluate_cpsdict [(''20240101000000'', 1)] (cli_default\<lparr>lowcps := 0\<rparr>) []
      = Inr (Some [], [])"
    by code_simp
  then show ?thesis by (simp add: cli_default_def)
qed

subsection \<open>The count table\<close>

lemma map_of_count_key:
  "map_of (count_key cpsdict k) =
     (map_of cpsdict)(k \<mapsto> (case map_of cpsdict k of
                               None \<Rightarrow> 1 | Some c \<Rightarrow> if c \<noteq> 0 then c + 1 else 1))"
  by (simp add: count_key_def update_conv' split: option.splits)

lemma occurrences_Cons:
  "occurrences cli (ev # reader) k
     = (if row_key cli ev = Some k then 1 else 0) + occurrences cli reader k"
  by (simp add: occurrences_def)

lemma counts_rows_count_key:
  assumes "counts_rows cpsdict n"
  shows "counts_rows (count_key cpsdict k) (n(k := Suc (n k)))"
  using assms unfolding counts_rows_def map_of_count_key
  by (auto split: option.splits)

lemma process_rows_counts:
  assumes "process_rows cli reader cpsdict = Inr cpsdict'"
    and "counts_rows cpsdict n"
  shows "counts_rows cpsdict' (\<lambda>k. n k + occurrences cli reader k)"
  using assms
proof (induction cli reader cpsdict arbitrary: n rule: process_rows.induct)
  case (1 cli cpsdict)
  then show ?case by (simp add: occurrences_def)
next
  case (2 cli n errmsg rest cpsdict)
  then show ?case by simp
next
  case (3 cli n errmsg rest cpsdict)
  then show ?case by simp
next
  case (4 cli ln row rest cpsdict)
  show ?case
  proof (cases "skip_row row (interface cli) (protocol cli) (zone cli)")
    case (Inl e)
    with "4.prems"(1) show ?thesis by simp
  next
    case (Inr skip)
    show ?thesis
    proof (cases skip)
      case True
      with Inr have rk: "row_key cli (Row ln row) = None"
        by (simp add: row_key_def)
      from "4.prems"(1) Inr True have "process_rows cli rest cpsdict = Inr cpsdict'"
        by simp
      moreover from True have "skip = True" by simp
      ultimately have "counts_rows cpsdict' (\<lambda>k. n k + occurrences cli rest k)"
        using "4.IH"(1) Inr "4.prems"(2) by blast
      then show ?thesis
        by (simp add: occurrences_Cons rk)
    next
      case False
      with "4.prems"(1) Inr obtain s t1 where
        s: "row START_TIME = Some s" and t1: "strptime_FMT s = Some t1"
        and rest: "process_rows cli rest (count_key cpsdict (strftime_COMPRESS_FMT t1)) = Inr cpsdict'"
        by (auto split: option.splits)
      let ?k = "strftime_COMPRESS_FMT t1"
      have rk: "row_key cli (Row ln row) = Some ?k"
        using Inr False s t1 by (simp add: row_key_def)
      from False have "skip = False" by simp
      then have "counts_rows cpsdict' (\<lambda>k. (n(?k := Suc (n ?k))) k + occurrences cli rest k)"
        using "4.IH"(2) Inr s t1 rest counts_rows_count_key [OF "4.prems"(2)] by blast
      moreover have "(\<lambda>k. (n(?k := Suc (n ?k))) k + occurrences cli rest k)
          = (\<lambda>k. n k + occurrences cli (Row ln row # rest) k)"
        by (auto simp: occurrences_Cons rk fun_eq_iff)
      ultimately show ?thesis by simp
    qed
  qed
qed

text \<open>
  Claim C10. When \<^verbatim>\<open>process_csvfile\<close> returns a table, a key is in the table iff some row
  survived the filter with that truncated timestamp, and its count is the number of
  those rows, hence at least 1; so the truthiness of the stored count, which the
  increment tests, holds exactly for the keys of the table.
\<close>

theorem process_csvfile_counts:
  assumes "process_csvfile reader cli = Inr cpsdict"
  shows "map_of cpsdict k =
           (if occurrences cli reader k = 0 then None
            else Some (int (occurrences cli reader k)))
       \<and> (case map_of cpsdict k of None \<Rightarrow> False | Some c \<Rightarrow> c \<noteq> 0) = (k \<in> fst ` set cpsdict)"
proof -
  have "counts_rows [] (\<lambda>k. 0)"
    by (simp add: counts_rows_def)
  from process_rows_counts [OF assms [unfolded process_csvfile_def] this]
  have c: "counts_rows cpsdict (\<lambda>k. occurrences cli reader k)"
    by simp
  then have m: "map_of cpsdict k =
           (if occurrences cli reader k = 0 then None
            else Some (int (occurrences cli reader k)))"
    by (simp add: counts_rows_def)
  have "(k \<in> fst ` set cpsdict) = (map_of cpsdict k \<noteq> None)"
    by (simp add: map_of_eq_None_iff)
  with m show ?thesis by simp
qed


lemma process_three_rows:
  "process_csvfile
     [Row 2 [''Inbound Interface'' \<mapsto> ''eth0'', ''Start Time'' \<mapsto> ''2024/01/01 00:00:00''],
      Row 3 [''Inbound Interface'' \<mapsto> ''eth1'', ''Start Time'' \<mapsto> ''2024/01/01 00:00:00''],
      Row 4 [''Inbound Interface'' \<mapsto> ''eth0'', ''Start Time'' \<mapsto> ''2024/01/01 00:00:00'']]
     cli_default = Inr [(''20240101000000'', 2)]"
  by code_simp

theorem process_csvfile_counts_witness:
  "process_csvfile
     [Row 2 [''Inbound Interface'' \<mapsto> ''eth0'', ''Start Time'' \<mapsto> ''2024/01/01 00:00:00''],
      Row 3 [''Inbound Interface'' \<mapsto> ''eth1'', ''Start Time'' \<mapsto> ''2024/01/01 00:00:00''],
      Row 4 [''Inbound Interface'' \<mapsto> ''eth0'', ''Start Time'' \<mapsto> ''2024/01/01 00:00:00'']]
     cli_default = Inr [(''20240101000000'', 2)]
   \<and> occurrences cli_default
     [Row 2 [''Inbound Interface'' \<mapsto> ''eth0'', ''Start Time'' \<mapsto> ''2024/01/01 00:00:00''],
      Row 3 [''Inbound Interface'' \<mapsto> ''eth1'', ''Start Time'' \<mapsto> ''2024/01/01 00:00:00''],
      Row 4 [''Inbound Interface'' \<mapsto> ''eth0'', ''Start Time'' \<mapsto> ''2024/01/01 00:00:00'']]
     ''20240101000000'' = 2"
  using process_three_rows process_csvfile_counts [OF process_three_rows, of "''20240101000000''"]
  by (simp split: if_splits)


subsection \<open>Rendering and reparsing a timestamp\<close>



















lemma digit_char_literals:
  "digit_char 0 = CHR ''0''" "digit_char (Suc 0) = CHR ''1''" "digit_char 1 = CHR ''1''"
  "digit_char 2 = CHR ''2''" "digit_char 3 = CHR ''3''" "digit_char 4 = CHR ''4''"
  "digit_char 5 = CHR ''5''" "digit_char 6 = CHR ''6''" "digit_char 7 = CHR ''7''"
  "digit_char 8 = CHR ''8''" "digit_char 9 = CHR ''9''"
  by (rule of_char_eqI [where ?'a = nat], simp add: digit_char_def)+


text \<open>Every time that \<^verbatim>\<open>process_csvfile\<close> parses from a row is such a timestamp.\<close>

lemma strptime_FMT_valid:
  assumes "strptime_FMT s = Some t"
  shows "valid_datetime t"
  using assms
  by (auto simp: strptime_FMT_def strptime_of_def split: list.splits if_splits)


subsection \<open>The statistics\<close>

lemma max_list_Max:
  assumes "xs \<noteq> []"
  shows "max_list xs = Max (set xs)"
proof -
  from assms obtain x r where "xs = x # r"
    by (cases xs) auto
  then show ?thesis
    using Max.set_eq_fold [of x r] by simp
qed

text \<open>
  Claim C3. For a list of at least two samples \<^verbatim>\<open>print_stats\<close> prints, after the lines
  before it: the maximum of the samples; their arithmetic mean; the sample standard
  deviation, with the denominator \<open>N - 1\<close>; the banner; and the thresholds
  \<open>mean + stdev\<close>, \<open>1.1 * max\<close> and \<open>1.1 * 1.1 * max\<close>. For the samples 5 and 7 these are
  7, 6, \<open>sqrt 2\<close>, \<open>6 + sqrt 2\<close>, 7.7 and 8.47.
\<close>

theorem print_stats_summary:
  assumes "2 \<le> length cpslist"
  shows "print_stats cpslist header out =
     Inr (out @
       [Fixed (''Max cps for '' @ header @ '' is= '') (Max (set cpslist)) 0 [],
        Fixed (''Avg cps for '' @ header @ '' is= '')
          (sum_list cpslist / real (length cpslist)) 3 [CHR 0x0A],
        Fixed (''Standard Deviation for '' @ header @ '' is= '')
          (sqrt ((\<Sum>x\<leftarrow>cpslist. (x - sum_list cpslist / real (length cpslist))\<^sup>2)
                 / real (length cpslist - 1))) 3 [CHR 0x0A],
        Text ''********** Suggested Threshold Values **********'',
        Fixed ''Alert Threshold = ''
          (sum_list cpslist / real (length cpslist)
           + sqrt ((\<Sum>x\<leftarrow>cpslist. (x - sum_list cpslist / real (length cpslist))\<^sup>2)
                   / real (length cpslist - 1))) 3 [],
        Fixed ''Activate Threshold = '' (1.1 * Max (set cpslist)) 3 [],
        Fixed ''Max Threshold = '' (1.1 * 1.1 * Max (set cpslist)) 3 []])"
proof -
  from assms have ne: "cpslist \<noteq> []" and l1: "length cpslist \<noteq> 1" and l2: "\<not> length cpslist < 2"
    by auto
  show ?thesis
    unfolding print_stats_def statistics_mean_def statistics_stdev_def print_thresholds_def
      max_list_Max [OF ne]
    using ne l1 l2 by (simp add: Let_def)
qed

theorem print_stats_summary_witness:
  "2 \<le> length [5, 7 :: real]
   \<and> print_stats [5, 7] ''interface=eth0'' [] =
     Inr [Fixed ''Max cps for interface=eth0 is= '' 7 0 [],
          Fixed ''Avg cps for interface=eth0 is= '' 6 3 [CHR 0x0A],
          Fixed ''Standard Deviation for interface=eth0 is= '' (sqrt 2) 3 [CHR 0x0A],
          Text ''********** Suggested Threshold Values **********'',
          Fixed ''Alert Threshold = '' (6 + sqrt 2) 3 [],
          Fixed ''Activate Threshold = '' 7.7 3 [],
          Fixed ''Max Threshold = '' 8.47 3 []]"
proof -
  have l: "2 \<le> length [5, 7 :: real]" by simp
  from l print_stats_summary [OF l, of "''interface=eth0''" "[]"] show ?thesis
    by simp
qed


subsection \<open>A time that does not parse\<close>

lemma process_rows_append:
  assumes "process_rows cli pre cpsdict = Inr cpsdict'"
  shows "process_rows cli (pre @ rest) cpsdict = process_rows cli rest cpsdict'"
  using assms
  by (induction cli pre cpsdict rule: process_rows.induct)
     (auto split: sum.splits bool.splits option.splits)

lemma process_rows_append_fail:
  assumes "process_rows cli pre cpsdict = Inl e"
  shows "process_rows cli (pre @ rest) cpsdict = Inl e"
  using assms
  by (induction cli pre cpsdict rule: process_rows.induct)
     (auto split: sum.splits bool.splits option.splits)

lemma main_process_fails:
  assumes "process_csvfile reader cli = Inl e"
  shows "main (Opened reader) cli = ([], Some (main_except cli e))"
  using assms by simp

text \<open>
  A row that survives the filter and whose \<^verbatim>\<open>Start Time\<close> does not parse under \<^verbatim>\<open>FMT\<close>:
  whatever stands before and after it, \<^verbatim>\<open>process_csvfile\<close> returns no table and the run
  ends in a failure with nothing printed; when the records before the row are processed
  without failure, the failure is the \<^verbatim>\<open>ValueError\<close> of \<^verbatim>\<open>strptime\<close>.
\<close>

lemma unparsed_time_fatal:
  assumes "skip_row row (interface cli) (protocol cli) (zone cli) = Inr False"
    and "row START_TIME = Some s"
    and "strptime_FMT s = None"
  shows "(\<exists>e. process_csvfile (pre @ Row n row # post) cli = Inl e
            \<and> main (Opened (pre @ Row n row # post)) cli = ([], Some (main_except cli e)))
       \<and> (process_csvfile pre cli = Inr cpsdict \<longrightarrow>
            process_csvfile (pre @ Row n row # post) cli = Inl ValueError
            \<and> main (Opened (pre @ Row n row # post)) cli = ([], Some ValueError))"
proof -
  have bad: "process_rows cli (Row n row # post) d = Inl ValueError" for d
    using assms by simp
  have ok: "process_csvfile (pre @ Row n row # post) cli = Inl ValueError"
    if "process_csvfile pre cli = Inr d" for d
    using process_rows_append [OF that [unfolded process_csvfile_def]] bad
    by (simp add: process_csvfile_def)
  have "\<exists>e. process_csvfile (pre @ Row n row # post) cli = Inl e"
  proof (cases "process_csvfile pre cli")
    case (Inl e)
    then show ?thesis
      using process_rows_append_fail [of cli pre "[]" e] by (simp add: process_csvfile_def)
  next
    case (Inr d)
    then show ?thesis using ok by blast
  qed
  then obtain e where e: "process_csvfile (pre @ Row n row # post) cli = Inl e" ..
  from e main_process_fails [OF e] have first: "\<exists>e. process_csvfile (pre @ Row n row # post) cli = Inl e
            \<and> main (Opened (pre @ Row n row # post)) cli = ([], Some (main_except cli e))"
    by blast
  have second: "process_csvfile (pre @ Row n row # post) cli = Inl ValueError
      \<and> main (Opened (pre @ Row n row # post)) cli = ([], Some ValueError)"
    if "process_csvfile pre cli = Inr cpsdict"
    using ok [OF that] main_process_fails [OF ok [OF that]] by simp
  from first second show ?thesis by blast
qed

lemma parse_yesterday: "strptime_FMT ''yesterday'' = None"
  by (simp add: strptime_FMT_def regex_FMT_def then_parse_def strptime_of_def is_digit_def)

lemma survives_eth0:
  "skip_row [''Inbound Interface'' \<mapsto> ''eth0'', ''Start Time'' \<mapsto> s]
     (interface cli_default) (protocol cli_default) (zone cli_default) = Inr False"
  by (simp add: skip_row_def cli_default_def)

text \<open>
  Claim C6. A surviving row whose \<^verbatim>\<open>Start Time\<close> does not parse should end the run with a
  message that names the file and the line, as the handlers of \<^verbatim>\<open>csv.Error\<close> and of
  \<^verbatim>\<open>UnicodeDecodeError\<close> do. The source does not: for a file whose line 2 is a surviving
  row with the time \<^verbatim>\<open>yesterday\<close>, the \<^verbatim>\<open>ValueError\<close> of \<^verbatim>\<open>strptime\<close> leaves
  \<^verbatim>\<open>process_csvfile\<close> and \<^verbatim>\<open>main\<close> uncaught, and the run ends with that exception and no
  message of the program.
\<close>

theorem unparsed_time_uncaught:
  "main (Opened [Row 2 [''Inbound Interface'' \<mapsto> ''eth0'', ''Start Time'' \<mapsto> ''yesterday'']])
     cli_default = ([], Some ValueError)"
  by (simp add: process_csvfile_def survives_eth0 START_TIME_def parse_yesterday)

text \<open>The sibling path: a \<^verbatim>\<open>csv.Error\<close> on the same line ends the run with file and line.\<close>

lemma csv_error_reported:
  "main (Opened [CsvError 2 errmsg]) cli_default
     = ([], Some (SystemExit (''ERROR: file: log.csv, line: 2; '' @ errmsg)))"
  by (simp add: process_csvfile_def exit_message_def cli_default_def str_nat.simps
      digit_char_literals)

subsection \<open>Too few samples\<close>

lemma print_results_few:
  "print_results None cli out = Inr out"
  "print_results (Some []) cli out = Inr out"
  "print_results (Some [x]) cli out = Inl (SystemExit insufficient_message, out @ [stats_banner cli])"
  by (simp_all add: print_results_def print_stats_def)

text \<open>
  With exactly one sample the banner of the summary is printed before \<^verbatim>\<open>print_stats\<close>
  exits.
\<close>

theorem print_results_one_counterexample:
  "print_results (Some [5]) cli_default []
     = Inl (SystemExit insufficient_message,
            [Text ''CPS Stats for interface=eth0 and protocol=all''])"
  by (simp add: print_results_few stats_banner_def stats_header_def cli_default_def)

text \<open>
  Claim C7, amended. For a run whose table is built and evaluated without failure: if
  exactly one sample was retained, the run prints the banner line
  \<^verbatim>\<open>CPS Stats for ... and protocol=...\<close> and then exits with the message on too few data
  points, before any line of statistics or thresholds; if no sample was retained (an
  empty list, or \<^verbatim>\<open>None\<close> for an empty table), the run ends normally and prints no line of
  the summary.
\<close>

theorem main_few_samples:
  assumes "process_csvfile reader cli = Inr cpsdict"
    and "evaluate_cpsdict cpsdict cli [] = Inr (cpslist, out)"
  shows "(cpslist = Some [x] \<longrightarrow>
            main (Opened reader) cli = (out @ [stats_banner cli], Some (SystemExit insufficient_message)))
       \<and> (cpslist = None \<or> cpslist = Some [] \<longrightarrow> main (Opened reader) cli = (out, None))"
  using assms by (auto simp: print_results_few)


theorem main_few_samples_witness:
  "main (Opened
     [Row 2 [''Inbound Interface'' \<mapsto> ''eth0'', ''Start Time'' \<mapsto> ''2024/01/01 00:00:00''],
      Row 3 [''Inbound Interface'' \<mapsto> ''eth1'', ''Start Time'' \<mapsto> ''2024/01/01 00:00:00''],
      Row 4 [''Inbound Interface'' \<mapsto> ''eth0'', ''Start Time'' \<mapsto> ''2024/01/01 00:00:00'']])
     cli_default
     = ([Text ''CPS Stats for interface=eth0 and protocol=all''],
        Some (SystemExit insufficient_message))
   \<and> main (Opened []) cli_default = ([], None)"
proof -
  have p0: "process_csvfile [] cli_default = Inr []"
    by (simp add: process_csvfile_def)
  have e0: "evaluate_cpsdict [] cli_default [] = Inr (None, [])"
    by (simp add: evaluate_cpsdict_def)
  have b: "stats_banner cli_default = Text ''CPS Stats for interface=eth0 and protocol=all''"
    by (simp add: stats_banner_def stats_header_def cli_default_def)
  note one = main_few_samples [OF process_three_rows evaluate_one_bucket, of 2,
      unfolded b append_Nil]
  note zero = main_few_samples [OF p0 e0, of 0]
  from one zero show ?thesis by blast
qed


end
